theory Spec2Isabelle
  imports Complex_Main
begin

section \<open>Values and data model (src/app.py, MODELS)\<close>

text \<open>
  Python floats are modelled by exact rationals: the finite values a reading can hold,
  with comparison and arithmetic exact. Timestamps are UTC instants counted in
  microseconds, the resolution of Python's datetime.
\<close>

type_synonym timestamp = int

datatype json =
    JNull
  | JBool bool
  | JNum rat
  | JStr string
  | JArr "json list"
  | JObj "(string \<times> json) list"

datatype py_exception =
    ValueError
  | TypeError
  | AttributeError
  | IntegrityError
  | InterfaceError
  | KeyError
  | RequestException
  | JSONDecodeError

record user =
  user_id :: nat
  full_name :: string
  email :: string
  phone :: "string option"
  role :: string
  dexcom_id :: "string option"

text \<open>A row of the table glucose_readings, as stored.\<close>

record glucose_reading =
  reading_id :: nat
  reading_user_id :: nat
  reading_value :: rat
  reading_timestamp :: timestamp
  reading_context :: "json option"
  reading_notes :: "json option"
  is_synced :: bool

text \<open>
  A GlucoseReading object handed to db.session.add and not yet flushed: it has no
  primary key, and its value may still be None (the column is nullable=False, which
  the database checks at the INSERT).
\<close>

record new_reading =
  new_user_id :: nat
  new_value :: "rat option"
  new_timestamp :: timestamp
  new_context :: "json option"
  new_notes :: "json option"
  new_is_synced :: bool

datatype alert = LowAlert | HighAlert | NoAlert

datatype notification =
    Email string string alert rat
  | Sms string alert rat

text \<open>
  The state the operations act on: the committed tables (rows in storage order), the
  rows the current session has flushed inside its open transaction, the objects added
  to the session and not yet flushed, and a log of the calls made to the notification
  dispatcher, each with the boolean the dispatcher returned.
\<close>

record world =
  users :: "user list"
  glucose_readings :: "glucose_reading list"
  flushed :: "glucose_reading list"
  pending :: "new_reading list"
  dispatch_log :: "(notification \<times> bool) list"

section \<open>Aggregation for the clinician listing (get_doctor_patients)\<close>

text \<open>Python's round(x, 1): nearest multiple of 1/10, ties to the even digit.\<close>

definition round_half_even :: "rat \<Rightarrow> int" where
  "round_half_even x =
     (let f = \<lfloor>x\<rfloor>; d = x - of_int f
      in if d < 1 / 2 then f else if d > 1 / 2 then f + 1 else if even f then f else f + 1)"

definition py_round1 :: "rat \<Rightarrow> rat" where
  "py_round1 x = of_int (round_half_even (x * 10)) / 10"

record patient_summary =
  ps_id :: nat
  ps_name :: string
  ps_email :: string
  ps_phone :: "string option"
  last_reading :: "rat option"
  avg_glucose :: "rat option"
  readings_count :: nat

definition seven_days :: int where
  "seven_days = 7 * 86400 * 1000000"

text \<open>
  The query of lines 532-535: the patient's rows with timestamp >= seven_days_ago, with
  no ORDER BY, so in the order the storage returns them (here: the order of the table).
\<close>

definition window_readings :: "timestamp \<Rightarrow> world \<Rightarrow> user \<Rightarrow> glucose_reading list" where
  "window_readings now w patient =
     filter (\<lambda>r. reading_user_id r = user_id patient \<and> reading_timestamp r \<ge> now - seven_days)
       (glucose_readings w)"

text \<open>Python truthiness of an optional float: None and 0.0 are false.\<close>

definition truthy :: "rat option \<Rightarrow> bool" where
  "truthy x = (case x of None \<Rightarrow> False | Some v \<Rightarrow> v \<noteq> 0)"

definition round_if_truthy :: "rat option \<Rightarrow> rat option" where
  "round_if_truthy x = (if truthy x then map_option py_round1 x else None)"

text \<open>The body of the loop, lines 537-552, for one patient and the rows fetched for them.\<close>

definition summarise :: "user \<Rightarrow> glucose_reading list \<Rightarrow> patient_summary" where
  "summarise patient readings =
     (let values = map reading_value readings;
          avg = (if readings \<noteq> [] then Some (sum_list values / of_nat (length values)) else None);
          lst = (if readings \<noteq> [] then Some (reading_value (last readings)) else None)
      in \<lparr> ps_id = user_id patient,
           ps_name = full_name patient,
           ps_email = email patient,
           ps_phone = phone patient,
           last_reading = round_if_truthy lst,
           avg_glucose = round_if_truthy avg,
           readings_count = length readings \<rparr>)"

definition patient_entry :: "timestamp \<Rightarrow> world \<Rightarrow> user \<Rightarrow> patient_summary" where
  "patient_entry now w patient = summarise patient (window_readings now w patient)"

definition get_doctor_patients :: "timestamp \<Rightarrow> world \<Rightarrow> patient_summary list" where
  "get_doctor_patients now w =
     map (patient_entry now w) (filter (\<lambda>u. role u = ''patient'') (users w))"

text \<open>
  What the specification asks of last_reading: the value of the reading whose timestamp
  is maximal among the fetched rows (the later row wins a tie), independent of their order.
\<close>

fun latest_by_timestamp :: "glucose_reading list \<Rightarrow> glucose_reading option" where
  "latest_by_timestamp [] = None"
| "latest_by_timestamp (r # rs) =
     (case latest_by_timestamp rs of
        None \<Rightarrow> Some r
      | Some m \<Rightarrow> if reading_timestamp r > reading_timestamp m then Some r else Some m)"

section \<open>The database session (Flask-SQLAlchemy, autoflush on)\<close>

text \<open>
  The ORM is not part of the repository; the operations the code calls are modelled as
  follows. db.session.add queues the object. A flush sends the queued objects as INSERTs,
  in order: the database rejects a NULL reading_value (IntegrityError) and the driver
  rejects a list or an object as a column value (InterfaceError); an accepted row gets
  the next primary key. A query flushes first (autoflush), then sees the committed rows
  and the rows of the open transaction. commit flushes and makes the transaction's rows
  permanent; rollback discards them and whatever is still queued.
\<close>

definition max_id :: "glucose_reading list \<Rightarrow> nat" where
  "max_id rows = fold (\<lambda>r m. max (reading_id r) m) rows 0"

fun bindable :: "json option \<Rightarrow> bool" where
  "bindable (Some (JArr _)) = False"
| "bindable (Some (JObj _)) = False"
| "bindable _ = True"

definition insert_row ::
  "glucose_reading list \<Rightarrow> glucose_reading list \<Rightarrow> new_reading \<Rightarrow>
     py_exception + glucose_reading list" where
  "insert_row table txn n =
     (case new_value n of
        None \<Rightarrow> Inl IntegrityError
      | Some v \<Rightarrow>
          if \<not> (bindable (new_context n) \<and> bindable (new_notes n)) then Inl InterfaceError
          else Inr (txn @ [\<lparr> reading_id = Suc (max_id (table @ txn)),
                              reading_user_id = new_user_id n,
                              reading_value = v,
                              reading_timestamp = new_timestamp n,
                              reading_context = new_context n,
                              reading_notes = new_notes n,
                              is_synced = new_is_synced n \<rparr>]))"

fun flush_all ::
  "glucose_reading list \<Rightarrow> glucose_reading list \<Rightarrow> new_reading list \<Rightarrow>
     py_exception + glucose_reading list" where
  "flush_all table txn [] = Inr txn"
| "flush_all table txn (n # ns) =
     (case insert_row table txn n of
        Inl e \<Rightarrow> Inl e
      | Inr txn' \<Rightarrow> flush_all table txn' ns)"

definition flush :: "world \<Rightarrow> py_exception + world" where
  "flush w =
     (case flush_all (glucose_readings w) (flushed w) (pending w) of
        Inl e \<Rightarrow> Inl e
      | Inr txn \<Rightarrow> Inr (w\<lparr>flushed := txn, pending := []\<rparr>))"

definition session_add :: "world \<Rightarrow> new_reading \<Rightarrow> world" where
  "session_add w n = w\<lparr>pending := pending w @ [n]\<rparr>"

definition commit :: "world \<Rightarrow> py_exception + world" where
  "commit w =
     (case flush w of
        Inl e \<Rightarrow> Inl e
      | Inr w' \<Rightarrow> Inr (w'\<lparr>glucose_readings := glucose_readings w' @ flushed w', flushed := []\<rparr>))"

definition rollback :: "world \<Rightarrow> world" where
  "rollback w = w\<lparr>flushed := [], pending := []\<rparr>"

text \<open>GlucoseReading.query.filter_by(user_id=..., timestamp=...).first()\<close>

definition first_reading_at ::
  "world \<Rightarrow> nat \<Rightarrow> timestamp \<Rightarrow> py_exception + (world \<times> glucose_reading option)" where
  "first_reading_at w uid ts =
     (case flush w of
        Inl e \<Rightarrow> Inl e
      | Inr w' \<Rightarrow>
          Inr (w', find (\<lambda>r. reading_user_id r = uid \<and> reading_timestamp r = ts)
                     (glucose_readings w' @ flushed w')))"

text \<open>User.query.get(user_id)\<close>

definition get_user :: "world \<Rightarrow> nat \<Rightarrow> user option" where
  "get_user w uid = find (\<lambda>u. user_id u = uid) (users w)"

section \<open>Environment and external collaborators\<close>

text \<open>
  os.getenv for the keys the code reads, and the third-party calls: each either raises
  (which includes a timeout) or returns, SendGrid with an HTTP status code.
\<close>

datatype call_outcome = Raised | Returned int

record environ =
  SENDGRID_API_KEY :: "string option"
  TWILIO_ACCOUNT_SID :: "string option"
  TWILIO_AUTH_TOKEN :: "string option"
  TWILIO_PHONE_NUMBER :: "string option"
  DEXCOM_ACCESS_TOKEN :: "string option"

record services =
  sendgrid_installed :: bool
  sendgrid_send :: "notification \<Rightarrow> call_outcome"
  twilio_installed :: bool
  twilio_create :: "notification \<Rightarrow> call_outcome"

text \<open>Python's "not s" for an optional string: None and the empty string.\<close>

definition unset :: "string option \<Rightarrow> bool" where
  "unset s = (case s of None \<Rightarrow> True | Some t \<Rightarrow> t = [])"

text \<open>
  send_email and send_sms (lines 111-151): everything happens inside try/except Exception,
  so the result is a boolean in every case. The call and its result are appended to
  the dispatch log.
\<close>

definition send_email :: "environ \<Rightarrow> services \<Rightarrow> notification \<Rightarrow> world \<Rightarrow> bool \<times> world" where
  "send_email env sv msg w =
     (let ok = (if \<not> sendgrid_installed sv then False
                else if unset (SENDGRID_API_KEY env) then False
                else (case sendgrid_send sv msg of
                        Raised \<Rightarrow> False
                      | Returned code \<Rightarrow> code = 202))
      in (ok, w\<lparr>dispatch_log := dispatch_log w @ [(msg, ok)]\<rparr>))"

definition send_sms :: "environ \<Rightarrow> services \<Rightarrow> notification \<Rightarrow> world \<Rightarrow> bool \<times> world" where
  "send_sms env sv msg w =
     (let ok = (if \<not> twilio_installed sv then False
                else if unset (TWILIO_ACCOUNT_SID env) \<or> unset (TWILIO_AUTH_TOKEN env)
                        \<or> unset (TWILIO_PHONE_NUMBER env) then False
                else (case twilio_create sv msg of
                        Raised \<Rightarrow> False
                      | Returned _ \<Rightarrow> True))
      in (ok, w\<lparr>dispatch_log := dispatch_log w @ [(msg, ok)]\<rparr>))"

section \<open>Responses\<close>

datatype error_message =
    MissingFields "string list"
  | DexcomNotConnected
  | MissingDexcomToken
  | DexcomApiError int
  | ExceptionText py_exception

datatype body = ReadingCreated nat | ErrorBody error_message

type_synonym response = "body \<times> nat"

definition api_error :: "error_message \<Rightarrow> nat \<Rightarrow> response" where
  "api_error message code = (ErrorBody message, code)"

section \<open>Dexcom synchronisation (sync_dexcom_data)\<close>

text \<open>
  What requests.get gives back: an exception (connection error, timeout) or a response
  with a status code and a body, which response.json() either fails to decode or decodes
  to a document whose "egvs" list (empty when the key is absent) holds the samples.
\<close>

record dexcom_sample =
  systemTime :: "string option"
  egv_value :: "rat option"

datatype http_body = NotJson | JsonBody "dexcom_sample list"

datatype http_outcome = RequestFailed | Response int http_body

datatype sync_result = SyncSuccess nat | SyncFailure error_message

text \<open>
  The loop of lines 189-209. The parameter isoparse stands for
  dtparser.isoparse(...).astimezone(timezone.utc): None where it raises ValueError.
\<close>

fun sync_loop ::
  "(string \<Rightarrow> timestamp option) \<Rightarrow> nat \<Rightarrow> dexcom_sample list \<Rightarrow> world \<Rightarrow> nat \<Rightarrow>
     py_exception + (world \<times> nat)" where
  "sync_loop isoparse uid [] w readings_added = Inr (w, readings_added)"
| "sync_loop isoparse uid (reading # rest) w readings_added =
     (case systemTime reading of
        None \<Rightarrow> sync_loop isoparse uid rest w readings_added
      | Some system_time \<Rightarrow>
          if system_time = [] then sync_loop isoparse uid rest w readings_added
          else (case isoparse system_time of
                  None \<Rightarrow> Inl ValueError
                | Some ts \<Rightarrow>
                    (case first_reading_at w uid ts of
                       Inl e \<Rightarrow> Inl e
                     | Inr (w', existing) \<Rightarrow>
                         if existing = None
                         then sync_loop isoparse uid rest
                                (session_add w' \<lparr> new_user_id = uid,
                                                  new_value = egv_value reading,
                                                  new_timestamp = ts,
                                                  new_context = None,
                                                  new_notes = None,
                                                  new_is_synced = True \<rparr>)
                                (readings_added + 1)
                         else sync_loop isoparse uid rest w' readings_added)))"

text \<open>
  sync_dexcom_data, lines 153-215. An exception anywhere inside the try block leads to
  db.session.rollback(), which leaves the committed rows and discards what the session
  had flushed or queued. The loop touches only the session's flushed and queued rows,
  so after a failure inside it the rollback is taken from the state the call started in.
\<close>

definition sync_dexcom_data ::
  "environ \<Rightarrow> http_outcome \<Rightarrow> (string \<Rightarrow> timestamp option) \<Rightarrow> nat \<Rightarrow> world \<Rightarrow>
     sync_result \<times> world" where
  "sync_dexcom_data env http isoparse uid w =
     (case get_user w uid of
        None \<Rightarrow> (SyncFailure DexcomNotConnected, w)
      | Some u \<Rightarrow>
          if unset (dexcom_id u) then (SyncFailure DexcomNotConnected, w)
          else if unset (DEXCOM_ACCESS_TOKEN env) then (SyncFailure MissingDexcomToken, w)
          else (case http of
                  RequestFailed \<Rightarrow> (SyncFailure (ExceptionText RequestException), rollback w)
                | Response status_code doc \<Rightarrow>
                    if status_code \<noteq> 200 then (SyncFailure (DexcomApiError status_code), w)
                    else (case doc of
                            NotJson \<Rightarrow> (SyncFailure (ExceptionText JSONDecodeError), rollback w)
                          | JsonBody egvs \<Rightarrow>
                              (case sync_loop isoparse uid egvs w 0 of
                                 Inl e \<Rightarrow> (SyncFailure (ExceptionText e), rollback w)
                               | Inr (w1, readings_added) \<Rightarrow>
                                   (case commit w1 of
                                      Inl e \<Rightarrow> (SyncFailure (ExceptionText e), rollback w1)
                                    | Inr w2 \<Rightarrow> (SyncSuccess readings_added, w2))))))"

text \<open>The route POST /api/glucose/sync-dexcom: 200 on success, 400 otherwise.\<close>

definition sync_dexcom ::
  "environ \<Rightarrow> http_outcome \<Rightarrow> (string \<Rightarrow> timestamp option) \<Rightarrow> nat \<Rightarrow> world \<Rightarrow>
     (sync_result \<times> nat) \<times> world" where
  "sync_dexcom env http isoparse uid w =
     (let (result, w') = sync_dexcom_data env http isoparse uid w
      in ((result, (case result of SyncSuccess _ \<Rightarrow> 200 | SyncFailure _ \<Rightarrow> 400)), w'))"

section \<open>Manual entry (add_glucose_reading)\<close>

text \<open>
  data.get(key) on the decoded body: Python's None when the key is absent and when its
  value is the JSON null.
\<close>

definition dict_get :: "(string \<rightharpoonup> json) \<Rightarrow> string \<Rightarrow> json option" where
  "dict_get data key = (case data key of None \<Rightarrow> None | Some JNull \<Rightarrow> None | Some v \<Rightarrow> Some v)"

text \<open>require_json (lines 104-109) on a request body that is a JSON object.\<close>

definition is_blank :: "json \<Rightarrow> bool" where
  "is_blank v = (v = JNull \<or> v = JStr [] \<or> v = JArr [])"

definition require_json ::
  "string list \<Rightarrow> (string \<rightharpoonup> json) \<Rightarrow> response + (string \<rightharpoonup> json)" where
  "require_json required data =
     (let missing = filter (\<lambda>f. case data f of None \<Rightarrow> True | Some v \<Rightarrow> is_blank v) required
      in if missing \<noteq> [] then Inl (api_error (MissingFields missing) 400) else Inr data)"

text \<open>
  Python's float(x) on a decoded JSON value. The parameter float_of_str stands for the
  conversion of a string: None where float raises ValueError.
\<close>

fun py_float :: "(string \<Rightarrow> rat option) \<Rightarrow> json \<Rightarrow> py_exception + rat" where
  "py_float float_of_str (JNum q) = Inr q"
| "py_float float_of_str (JBool b) = Inr (if b then 1 else 0)"
| "py_float float_of_str (JStr s) =
     (case float_of_str s of None \<Rightarrow> Inl ValueError | Some q \<Rightarrow> Inr q)"
| "py_float float_of_str JNull = Inl TypeError"
| "py_float float_of_str (JArr _) = Inl TypeError"
| "py_float float_of_str (JObj _) = Inl TypeError"

text \<open>The if/elif of lines 494 and 500.\<close>

definition alert_branch :: "rat \<Rightarrow> alert" where
  "alert_branch val = (if val < 70 then LowAlert else if val > 200 then HighAlert else NoAlert)"

definition alert_subject :: "alert \<Rightarrow> string" where
  "alert_subject a =
     (if a = LowAlert then ''Critical Low Glucose Alert'' else ''Critical High Glucose Alert'')"

text \<open>
  The body shared by the two alert branches (lines 495-498 and 501-504): the email in
  every case, the SMS when the user has a phone number. The message carries the
  severity and the value.
\<close>

definition dispatch_alert ::
  "environ \<Rightarrow> services \<Rightarrow> user \<Rightarrow> alert \<Rightarrow> rat \<Rightarrow> world \<Rightarrow> world" where
  "dispatch_alert env sv u a val w =
     (let w1 = snd (send_email env sv (Email (email u) (alert_subject a) a val) w)
      in case phone u of
           None \<Rightarrow> w1
         | Some number \<Rightarrow>
             if number = [] then w1 else snd (send_sms env sv (Sms number a val) w1))"

text \<open>
  add_glucose_reading, lines 471-510. The identity uid comes from the access token and
  now from datetime.now(timezone.utc). reading.reading_id is the key the flush gave to
  the row, the last one of the table after the commit.
\<close>

definition add_glucose_reading ::
  "environ \<Rightarrow> services \<Rightarrow> (string \<Rightarrow> rat option) \<Rightarrow> timestamp \<Rightarrow> nat \<Rightarrow>
     (string \<rightharpoonup> json) \<Rightarrow> world \<Rightarrow> response \<times> world" where
  "add_glucose_reading env sv float_of_str now uid body w =
     (case require_json [''reading_value''] body of
        Inl err \<Rightarrow> (err, w)
      | Inr data \<Rightarrow>
          (case data ''reading_value'' of
             None \<Rightarrow> (api_error (ExceptionText KeyError) 500, rollback w)
           | Some raw \<Rightarrow>
               (case py_float float_of_str raw of
                  Inl e \<Rightarrow> (api_error (ExceptionText e) 500, rollback w)
                | Inr value \<Rightarrow>
                    (let w1 = session_add w \<lparr> new_user_id = uid,
                                               new_value = Some value,
                                               new_timestamp = now,
                                               new_context = dict_get data ''context'',
                                               new_notes = dict_get data ''notes'',
                                               new_is_synced = False \<rparr>
                     in case commit w1 of
                          Inl e \<Rightarrow> (api_error (ExceptionText e) 500, rollback w1)
                        | Inr w2 \<Rightarrow>
                            (let reading = last (glucose_readings w2);
                                 usr = get_user w2 uid;
                                 val = reading_value reading;
                                 a = alert_branch val
                             in if a = NoAlert
                                then ((ReadingCreated (reading_id reading), 201), w2)
                                else (case usr of
                                        None \<Rightarrow>
                                          (api_error (ExceptionText AttributeError) 500,
                                           rollback w2)
                                      | Some u \<Rightarrow>
                                          ((ReadingCreated (reading_id reading), 201),
                                           dispatch_alert env sv u a val w2)))))))"

section \<open>A small clinic, for concrete runs\<close>

definition alice :: user where
  "alice = \<lparr> user_id = 1, full_name = ''Alice'', email = ''alice@example.org'',
             phone = Some ''+15550100'', role = ''patient'', dexcom_id = Some ''dex-1'' \<rparr>"

definition clinic0 :: world where
  "clinic0 = \<lparr> users = [alice], glucose_readings = [], flushed = [], pending = [],
               dispatch_log = [] \<rparr>"

text \<open>No SendGrid or Twilio key configured; a Dexcom token is.\<close>

definition env_unconfigured :: environ where
  "env_unconfigured = \<lparr> SENDGRID_API_KEY = None, TWILIO_ACCOUNT_SID = None,
                        TWILIO_AUTH_TOKEN = None, TWILIO_PHONE_NUMBER = None,
                        DEXCOM_ACCESS_TOKEN = Some ''token'' \<rparr>"


text \<open>Providers that fail on every call, and providers that accept every call.\<close>

definition services_down :: services where
  "services_down = \<lparr> sendgrid_installed = True, sendgrid_send = (\<lambda>_. Raised),
                     twilio_installed = True, twilio_create = (\<lambda>_. Raised) \<rparr>"


text \<open>
  Stand-ins for the two library parsers on the strings the runs below use; the clock of
  the runs counts in small numbers.
\<close>

definition demo_float :: "string \<Rightarrow> rat option" where
  "demo_float s = (if s = ''5.5'' then Some (11 / 2) else if s = ''250'' then Some 250 else None)"

definition demo_isoparse :: "string \<Rightarrow> timestamp option" where
  "demo_isoparse s =
     (if s = ''1970-01-01T00:00:00.000050Z'' then Some 50
      else if s = ''1970-01-01T00:00:00.000060Z'' then Some 60
      else None)"

definition demo_egvs :: "dexcom_sample list" where
  "demo_egvs = [\<lparr> systemTime = Some ''1970-01-01T00:00:00.000050Z'', egv_value = Some 90 \<rparr>,
                \<lparr> systemTime = Some ''1970-01-01T00:00:00.000060Z'', egv_value = Some 55 \<rparr>,
                \<lparr> systemTime = None, egv_value = Some 300 \<rparr>,
                \<lparr> systemTime = Some ''1970-01-01T00:00:00.000050Z'', egv_value = Some 90 \<rparr>]"

text \<open>A stored reading of value 0.0.\<close>

definition zero_reading :: glucose_reading where
  "zero_reading = \<lparr> reading_id = 1, reading_user_id = 1, reading_value = 0,
                    reading_timestamp = 100, reading_context = None, reading_notes = None,
                    is_synced = False \<rparr>"

text \<open>
  A run: Alice enters 120 mg/dL by hand at time 100; then a sync fetches samples that the
  device took earlier, at times 50 and 60.
\<close>

definition after_manual :: world where
  "after_manual =
     snd (add_glucose_reading env_unconfigured services_down demo_float 100 1
            [''reading_value'' \<mapsto> JNum 120] clinic0)"

definition after_sync :: world where
  "after_sync =
     snd (sync_dexcom_data env_unconfigured (Response 200 (JsonBody demo_egvs)) demo_isoparse 1
            after_manual)"

text \<open>A run: Alice enters the value 0 by hand at time 100.\<close>

definition after_zero :: world where
  "after_zero =
     snd (add_glucose_reading env_unconfigured services_down demo_float 100 1
            [''reading_value'' \<mapsto> JNum 0] clinic0)"

section \<open>Notions used to state the theorems\<close>




text \<open>
  The dedup keys a session can see or is about to write: the (user, timestamp) pairs of
  the committed rows, of the rows of the open transaction and of the queued objects.
\<close>

definition row_key :: "glucose_reading \<Rightarrow> nat \<times> timestamp" where
  "row_key r = (reading_user_id r, reading_timestamp r)"

definition new_key :: "new_reading \<Rightarrow> nat \<times> timestamp" where
  "new_key n = (new_user_id n, new_timestamp n)"

definition keys :: "world \<Rightarrow> (nat \<times> timestamp) set" where
  "keys w = row_key ` set (glucose_readings w @ flushed w) \<union> new_key ` set (pending w)"

text \<open>The precondition under which sync_dexcom_data makes the provider call.\<close>

definition connected :: "environ \<Rightarrow> world \<Rightarrow> nat \<Rightarrow> bool" where
  "connected env w uid =
     (case get_user w uid of
        None \<Rightarrow> False
      | Some u \<Rightarrow> \<not> unset (dexcom_id u) \<and> \<not> unset (DEXCOM_ACCESS_TOKEN env))"

text \<open>The keys of what the session has written or queued, in the order of the writes.\<close>

definition session_keys :: "world \<Rightarrow> (nat \<times> timestamp) list" where
  "session_keys w = map row_key (flushed w) @ map new_key (pending w)"

section \<open>Aggregation: theorems\<close>

lemma summarise_empty:
  "summarise p [] =
     \<lparr> ps_id = user_id p, ps_name = full_name p, ps_email = email p, ps_phone = phone p,
       last_reading = None, avg_glucose = None, readings_count = 0 \<rparr>"
  by (simp add: summarise_def round_if_truthy_def truthy_def)

text \<open>
  C5. Every patient of the listing who has no reading in the trailing seven days gets an
  entry whose avg_glucose is null, whose last_reading is null and whose readings_count
  is 0.
\<close>

theorem empty_window_reports_no_data:
  "\<forall>p \<in> set (users w). role p = ''patient'' \<and> window_readings now w p = [] \<longrightarrow>
     patient_entry now w p \<in> set (get_doctor_patients now w) \<and>
     avg_glucose (patient_entry now w p) = None \<and>
     last_reading (patient_entry now w p) = None \<and>
     readings_count (patient_entry now w p) = 0"
proof (intro ballI impI)
  fix p
  assume p: "p \<in> set (users w)"
    and h: "role p = ''patient'' \<and> window_readings now w p = []"
  from p h have "patient_entry now w p \<in> set (get_doctor_patients now w)"
    unfolding get_doctor_patients_def by simp
  moreover from h have "patient_entry now w p = summarise p []"
    by (simp add: patient_entry_def)
  ultimately show "patient_entry now w p \<in> set (get_doctor_patients now w) \<and>
     avg_glucose (patient_entry now w p) = None \<and>
     last_reading (patient_entry now w p) = None \<and>
     readings_count (patient_entry now w p) = 0"
    by (simp add: summarise_empty)
qed

theorem empty_window_reports_no_data_witness:
  "alice \<in> set (users clinic0) \<and> role alice = ''patient'' \<and>
   window_readings 200 clinic0 alice = [] \<and>
   patient_entry 200 clinic0 alice \<in> set (get_doctor_patients 200 clinic0) \<and>
   avg_glucose (patient_entry 200 clinic0 alice) = None \<and>
   last_reading (patient_entry 200 clinic0 alice) = None \<and>
   readings_count (patient_entry 200 clinic0 alice) = 0"
proof -
  have a: "alice \<in> set (users clinic0)" by (simp add: clinic0_def)
  have b: "role alice = ''patient'' \<and> window_readings 200 clinic0 alice = []"
    by (simp add: alice_def clinic0_def window_readings_def)
  from empty_window_reports_no_data [of clinic0 200] a b show ?thesis by blast
qed

text \<open>
  C10. The listing tests the two computed values by truthiness: with at least one reading
  fetched, last_reading is null when the value of the last fetched row is 0.0, and
  avg_glucose is null when the mean is 0.0, while readings_count still counts the rows.
\<close>

theorem zero_value_reported_as_null:
  "(readings \<noteq> [] \<and> reading_value (last readings) = 0 \<longrightarrow>
      last_reading (summarise p readings) = None) \<and>
   (readings \<noteq> [] \<and> sum_list (map reading_value readings) / of_nat (length readings) = 0 \<longrightarrow>
      avg_glucose (summarise p readings) = None) \<and>
   readings_count (summarise p readings) = length readings"
  by (auto simp: summarise_def Let_def round_if_truthy_def truthy_def)

theorem zero_value_reported_as_null_witness:
  "[zero_reading] \<noteq> [] \<and> reading_value (last [zero_reading]) = 0 \<and>
   sum_list (map reading_value [zero_reading]) / of_nat (length [zero_reading]) = 0 \<and>
   last_reading (summarise alice [zero_reading]) = None \<and>
   avg_glucose (summarise alice [zero_reading]) = None \<and>
   readings_count (summarise alice [zero_reading]) = 1 \<and> (0::nat) < 1"
  using zero_value_reported_as_null [of "[zero_reading]" alice]
  by (simp add: zero_reading_def)

section \<open>Concrete runs\<close>

lemmas session_defs = commit_def flush_def insert_row_def session_add_def rollback_def
  first_reading_at_def max_id_def get_user_def dict_get_def

lemma after_manual_eq:
  "after_manual = clinic0\<lparr>glucose_readings :=
      [\<lparr> reading_id = 1, reading_user_id = 1, reading_value = 120, reading_timestamp = 100,
         reading_context = None, reading_notes = None, is_synced = False \<rparr>]\<rparr>"
  by (simp add: after_manual_def add_glucose_reading_def require_json_def is_blank_def
      clinic0_def session_defs alert_branch_def Let_def)

lemma after_sync_eq:
  "after_sync = clinic0\<lparr>glucose_readings :=
      [\<lparr> reading_id = 1, reading_user_id = 1, reading_value = 120, reading_timestamp = 100,
         reading_context = None, reading_notes = None, is_synced = False \<rparr>,
       \<lparr> reading_id = 2, reading_user_id = 1, reading_value = 90, reading_timestamp = 50,
         reading_context = None, reading_notes = None, is_synced = True \<rparr>,
       \<lparr> reading_id = 3, reading_user_id = 1, reading_value = 55, reading_timestamp = 60,
         reading_context = None, reading_notes = None, is_synced = True \<rparr>]\<rparr>"
  by (simp add: after_sync_def after_manual_eq sync_dexcom_data_def clinic0_def alice_def
      env_unconfigured_def unset_def demo_egvs_def demo_isoparse_def session_defs Let_def)

lemma after_zero_eq:
  "after_zero = clinic0\<lparr>glucose_readings := [zero_reading],
      dispatch_log := [(Email ''alice@example.org'' ''Critical Low Glucose Alert'' LowAlert 0, False),
                       (Sms ''+15550100'' LowAlert 0, False)]\<rparr>"
  by (simp add: after_zero_def add_glucose_reading_def require_json_def is_blank_def
      clinic0_def alice_def session_defs alert_branch_def Let_def zero_reading_def
      dispatch_alert_def send_email_def send_sms_def alert_subject_def services_down_def
      env_unconfigured_def unset_def)

text \<open>
  C1, on the code. After a manual entry at time 100 (120 mg/dL) and a sync that stores
  two older device samples, the three rows are in the window; the reading with the
  greatest timestamp is the manual one, and the listing reports the value of the row
  stored last, 55.
\<close>

theorem last_reading_follows_storage_order:
  "map reading_timestamp (window_readings 200 after_sync alice) = [100, 50, 60] \<and>
   map reading_value (window_readings 200 after_sync alice) = [120, 90, 55] \<and>
   map_option reading_value (latest_by_timestamp (window_readings 200 after_sync alice))
     = Some 120 \<and>
   map last_reading (get_doctor_patients 200 after_sync) = [Some 55]"
  by (simp add: after_sync_eq get_doctor_patients_def patient_entry_def window_readings_def
      clinic0_def alice_def seven_days_def summarise_def round_if_truthy_def truthy_def
      py_round1_def round_half_even_def Let_def)

lemma avg_glucose_nonzero_mean:
  "readings \<noteq> [] \<Longrightarrow> sum_list (map reading_value readings) / of_nat (length readings) \<noteq> 0 \<Longrightarrow>
   avg_glucose (summarise p readings) =
     Some (py_round1 (sum_list (map reading_value readings) / of_nat (length readings)))"
  by (simp add: summarise_def Let_def round_if_truthy_def truthy_def)

lemma py_round1_example:
  "py_round1 (sum_list [100, 150, 120] / of_nat (length [100, 150, 120 :: rat])) = 1233 / 10"
proof -
  have f: "\<lfloor>3700 / 3 :: rat\<rfloor> = 1233" by (simp add: floor_eq_iff)
  show ?thesis by (simp add: py_round1_def round_half_even_def Let_def f)
qed

text \<open>
  C6, on the code. After Alice has entered the value 0, her window holds that one
  reading; its mean is 0, which rounds to 0, and the listing reports avg_glucose as
  null with readings_count 1.
\<close>

theorem zero_mean_reported_as_null:
  "window_readings 200 after_zero alice = [zero_reading] \<and>
   py_round1 (sum_list (map reading_value [zero_reading]) / of_nat (length [zero_reading])) = 0 \<and>
   map avg_glucose (get_doctor_patients 200 after_zero) = [None] \<and>
   map readings_count (get_doctor_patients 200 after_zero) = [1]"
  by (simp add: after_zero_eq get_doctor_patients_def patient_entry_def window_readings_def
      clinic0_def alice_def seven_days_def summarise_def round_if_truthy_def truthy_def
      zero_reading_def Let_def py_round1_def round_half_even_def)

section \<open>Manual entry: theorems\<close>



















section \<open>Synchronisation: theorems\<close>

lemma insert_row_Inr:
  "insert_row table txn n = Inr txn' \<Longrightarrow> \<exists>row. txn' = txn @ [row] \<and> row_key row = new_key n"
  by (auto simp: insert_row_def row_key_def new_key_def split: option.splits if_splits)

lemma flush_all_keys:
  "flush_all table txn ns = Inr txn' \<Longrightarrow>
   row_key ` set txn' = row_key ` set txn \<union> new_key ` set ns"
proof (induction ns arbitrary: txn)
  case Nil
  then show ?case by simp
next
  case (Cons n ns)
  from Cons.prems obtain t1 where t1: "insert_row table txn n = Inr t1"
    and rest: "flush_all table t1 ns = Inr txn'"
    by (auto split: sum.splits)
  from insert_row_Inr [OF t1] obtain row where "t1 = txn @ [row]" "row_key row = new_key n"
    by blast
  with Cons.IH [OF rest] show ?case by auto
qed

lemma flush_frame:
  assumes "flush w = Inr w'"
  shows "users w' = users w" "glucose_readings w' = glucose_readings w"
    "dispatch_log w' = dispatch_log w" "pending w' = []" "keys w' = keys w"
proof -
  from assms obtain txn where f: "flush_all (glucose_readings w) (flushed w) (pending w) = Inr txn"
    and w': "w' = w\<lparr>flushed := txn, pending := []\<rparr>"
    by (auto simp: flush_def split: sum.splits)
  show "users w' = users w" "glucose_readings w' = glucose_readings w"
    "dispatch_log w' = dispatch_log w" "pending w' = []"
    by (simp_all add: w')
  from flush_all_keys [OF f] show "keys w' = keys w"
    by (auto simp: keys_def w')
qed

lemma flush_clean: "pending w = [] \<Longrightarrow> flush w = Inr w"
  by (cases w) (simp add: flush_def)

lemma first_reading_at_Inr:
  assumes "first_reading_at w uid ts = Inr (w', existing)"
  shows "flush w = Inr w'"
    and "existing = None \<longleftrightarrow> (uid, ts) \<notin> row_key ` set (glucose_readings w' @ flushed w')"
  using assms
  by (auto simp: first_reading_at_def find_None_iff row_key_def image_iff split: sum.splits)

lemma session_add_frame:
  "users (session_add w n) = users w" "glucose_readings (session_add w n) = glucose_readings w"
  "dispatch_log (session_add w n) = dispatch_log w" "keys (session_add w n) = insert (new_key n) (keys w)"
  by (auto simp: session_add_def keys_def)

lemma sync_loop_frame:
  "sync_loop isoparse uid egvs w k = Inr (w', k') \<Longrightarrow>
   users w' = users w \<and> glucose_readings w' = glucose_readings w \<and>
   dispatch_log w' = dispatch_log w"
proof (induction egvs arbitrary: w k)
  case Nil
  then show ?case by simp
next
  case (Cons reading rest)
  show ?case
  proof (cases "systemTime reading")
    case None
    with Cons show ?thesis by simp
  next
    case (Some st)
    show ?thesis
    proof (cases "st = []")
      case True
      with Some Cons show ?thesis by simp
    next
      case False
      with Some Cons.prems obtain ts w1 existing where ts: "isoparse st = Some ts"
        and q: "first_reading_at w uid ts = Inr (w1, existing)"
        by (auto split: option.splits sum.splits)
      note fl = flush_frame [OF first_reading_at_Inr(1) [OF q]]
      show ?thesis
      proof (cases "existing = None")
        case True
        with Some False ts q Cons.prems Cons.IH [of "session_add w1 _" "k + 1"] fl show ?thesis
          by (simp add: session_add_frame)
      next
        case no: False
        with Some False ts q Cons.prems Cons.IH [of w1 k] fl show ?thesis
          by simp
      qed
    qed
  qed
qed


lemma commit_Inr:
  assumes "commit w = Inr w'"
  shows "users w' = users w" "dispatch_log w' = dispatch_log w" "pending w' = []"
    "flushed w' = []" "row_key ` set (glucose_readings w') = keys w"
proof -
  from assms obtain w1 where f: "flush w = Inr w1"
    and w': "w' = w1\<lparr>glucose_readings := glucose_readings w1 @ flushed w1, flushed := []\<rparr>"
    by (auto simp: commit_def split: sum.splits)
  note fl = flush_frame [OF f]
  show "users w' = users w" "dispatch_log w' = dispatch_log w" "pending w' = []"
    "flushed w' = []"
    by (simp_all add: w' fl)
  have "row_key ` set (glucose_readings w') = keys w1"
    by (simp add: w' keys_def fl)
  then show "row_key ` set (glucose_readings w') = keys w" by (simp add: fl)
qed

lemma commit_clean: "pending w = [] \<Longrightarrow> flushed w = [] \<Longrightarrow> commit w = Inr w"
  by (cases w) (simp add: commit_def flush_def)

lemma rollback_frame:
  "users (rollback w) = users w" "glucose_readings (rollback w) = glucose_readings w"
  "dispatch_log (rollback w) = dispatch_log w"
  by (simp_all add: rollback_def)

text \<open>What a sample contributes: its parsed timestamp, when it carries a systemTime.\<close>

lemma sync_loop_keys:
  "sync_loop isoparse uid egvs w k = Inr (w', k') \<Longrightarrow>
   keys w \<subseteq> keys w' \<and>
   (\<forall>s \<in> set egvs. \<forall>st. systemTime s = Some st \<and> st \<noteq> [] \<longrightarrow>
      (\<exists>ts. isoparse st = Some ts \<and> (uid, ts) \<in> keys w'))"
proof (induction egvs arbitrary: w k)
  case Nil
  then show ?case by simp
next
  case (Cons reading rest)
  show ?case
  proof (cases "systemTime reading")
    case None
    with Cons show ?thesis by simp
  next
    case (Some st)
    show ?thesis
    proof (cases "st = []")
      case True
      with Some Cons show ?thesis by simp
    next
      case False
      with Some Cons.prems obtain ts w1 existing where ts: "isoparse st = Some ts"
        and q: "first_reading_at w uid ts = Inr (w1, existing)"
        by (auto split: option.splits sum.splits)
      note fl = flush_frame [OF first_reading_at_Inr(1) [OF q]]
      note ex = first_reading_at_Inr(2) [OF q]
      show ?thesis
      proof (cases "existing = None")
        case True
        let ?n = "\<lparr> new_user_id = uid, new_value = egv_value reading, new_timestamp = ts,
                    new_context = None, new_notes = None, new_is_synced = True \<rparr>"
        from True Some False ts q Cons.prems
        have run: "sync_loop isoparse uid rest (session_add w1 ?n) (k + 1) = Inr (w', k')"
          by simp
        from Cons.IH [OF run]
        have ih: "keys (session_add w1 ?n) \<subseteq> keys w'"
          "\<forall>s \<in> set rest. \<forall>st. systemTime s = Some st \<and> st \<noteq> [] \<longrightarrow>
              (\<exists>ts. isoparse st = Some ts \<and> (uid, ts) \<in> keys w')"
          by blast+
        have k1: "keys (session_add w1 ?n) = insert (uid, ts) (keys w)"
          by (simp add: session_add_frame fl new_key_def)
        from ih k1 Some ts show ?thesis by auto
      next
        case no: False
        from no Some False ts q Cons.prems
        have run: "sync_loop isoparse uid rest w1 k = Inr (w', k')"
          by auto
        from Cons.IH [OF run]
        have ih: "keys w1 \<subseteq> keys w'"
          "\<forall>s \<in> set rest. \<forall>st. systemTime s = Some st \<and> st \<noteq> [] \<longrightarrow>
              (\<exists>ts. isoparse st = Some ts \<and> (uid, ts) \<in> keys w')"
          by blast+
        from no ex have "(uid, ts) \<in> keys w1" by (auto simp: keys_def)
        with ih fl Some ts show ?thesis by auto
      qed
    qed
  qed
qed

lemma sync_loop_all_present:
  assumes "pending w = []" "flushed w = []"
    and "\<forall>s \<in> set egvs. \<forall>st. systemTime s = Some st \<and> st \<noteq> [] \<longrightarrow>
           (\<exists>ts. isoparse st = Some ts \<and> (uid, ts) \<in> row_key ` set (glucose_readings w))"
  shows "sync_loop isoparse uid egvs w k = Inr (w, k)"
  using assms(3)
proof (induction egvs)
  case Nil
  then show ?case by simp
next
  case (Cons reading rest)
  then have ih: "sync_loop isoparse uid rest w k = Inr (w, k)" by simp
  show ?case
  proof (cases "systemTime reading")
    case None
    with ih show ?thesis by simp
  next
    case (Some st)
    show ?thesis
    proof (cases "st = []")
      case True
      with Some ih show ?thesis by simp
    next
      case False
      with Some Cons.prems obtain ts where ts: "isoparse st = Some ts"
        and present: "(uid, ts) \<in> row_key ` set (glucose_readings w)"
        by auto
      from present obtain r where r: "r \<in> set (glucose_readings w)"
        "reading_user_id r = uid" "reading_timestamp r = ts"
        by (auto simp: row_key_def)
      then have "find (\<lambda>r. reading_user_id r = uid \<and> reading_timestamp r = ts)
                   (glucose_readings w @ flushed w) \<noteq> None"
        by (auto simp: find_None_iff)
      then obtain e where "first_reading_at w uid ts = Inr (w, Some e)"
        by (auto simp: first_reading_at_def flush_clean [OF assms(1)])
      with Some False ts ih show ?thesis by simp
    qed
  qed
qed

text \<open>
  C9. A sync calls neither send_email nor send_sms, whatever the values of the samples
  it stores and whatever its outcome: the dispatch log after sync_dexcom_data is the
  log before it.
\<close>

theorem sync_never_dispatches:
  "dispatch_log (snd (sync_dexcom_data env http isoparse uid w)) = dispatch_log w"
  by (auto simp: sync_dexcom_data_def rollback_frame commit_Inr(2)
      dest!: sync_loop_frame
      split: option.splits http_outcome.splits http_body.splits sum.splits)

text \<open>
  C7. When the provider answers with a status other than 200, the sync leaves the state
  as it was (no row written, nothing queued), and, the call having been made for a
  connected user, the outcome is the Dexcom API error with that status, answered 400.
\<close>

theorem provider_error_no_writes:
  "status_code \<noteq> 200 \<longrightarrow>
     snd (sync_dexcom_data env (Response status_code doc) isoparse uid w) = w \<and>
     (connected env w uid \<longrightarrow>
        sync_dexcom env (Response status_code doc) isoparse uid w =
          ((SyncFailure (DexcomApiError status_code), 400), w))"
  by (auto simp: sync_dexcom_def sync_dexcom_data_def connected_def split: option.splits)

lemma flush_all_seq:
  "flush_all table txn ns = Inr txn' \<Longrightarrow> map row_key txn' = map row_key txn @ map new_key ns"
proof (induction ns arbitrary: txn)
  case Nil
  then show ?case by simp
next
  case (Cons n ns)
  from Cons.prems obtain t1 where t1: "insert_row table txn n = Inr t1"
    and rest: "flush_all table t1 ns = Inr txn'"
    by (auto split: sum.splits)
  from insert_row_Inr [OF t1] obtain row where "t1 = txn @ [row]" "row_key row = new_key n"
    by blast
  with Cons.IH [OF rest] show ?case by simp
qed

lemma flush_session_keys: "flush w = Inr w' \<Longrightarrow> session_keys w' = session_keys w"
  by (auto simp: flush_def session_keys_def split: sum.splits dest: flush_all_seq)

lemma keys_session_keys: "keys w = row_key ` set (glucose_readings w) \<union> set (session_keys w)"
  by (auto simp: keys_def session_keys_def)

lemma sync_loop_added:
  "sync_loop isoparse uid egvs w k = Inr (w', k') \<Longrightarrow>
   \<exists>added. session_keys w' = session_keys w @ added \<and> distinct added \<and>
           set added \<inter> keys w = {} \<and> k' = k + length added \<and> fst ` set added \<subseteq> {uid}"
proof (induction egvs arbitrary: w k)
  case Nil
  then show ?case by simp
next
  case (Cons reading rest)
  show ?case
  proof (cases "systemTime reading")
    case None
    with Cons show ?thesis by simp
  next
    case (Some st)
    show ?thesis
    proof (cases "st = []")
      case True
      with Some Cons show ?thesis by simp
    next
      case False
      with Some Cons.prems obtain ts w1 existing where ts: "isoparse st = Some ts"
        and q: "first_reading_at w uid ts = Inr (w1, existing)"
        by (auto split: option.splits sum.splits)
      note f = first_reading_at_Inr(1) [OF q]
      note fl = flush_frame [OF f]
      note sk = flush_session_keys [OF f]
      note ex = first_reading_at_Inr(2) [OF q]
      show ?thesis
      proof (cases "existing = None")
        case True
        let ?n = "\<lparr> new_user_id = uid, new_value = egv_value reading, new_timestamp = ts,
                    new_context = None, new_notes = None, new_is_synced = True \<rparr>"
        from True Some False ts q Cons.prems
        have run: "sync_loop isoparse uid rest (session_add w1 ?n) (k + 1) = Inr (w', k')"
          by simp
        from Cons.IH [OF run] obtain added where a:
          "session_keys w' = session_keys (session_add w1 ?n) @ added" "distinct added"
          "set added \<inter> keys (session_add w1 ?n) = {}" "k' = k + 1 + length added"
          "fst ` set added \<subseteq> {uid}"
          by auto
        have s1: "session_keys (session_add w1 ?n) = session_keys w @ [(uid, ts)]"
          using sk fl(4) by (simp add: session_keys_def session_add_def new_key_def)
        have k1: "keys (session_add w1 ?n) = insert (uid, ts) (keys w)"
          by (simp add: session_add_frame fl new_key_def)
        have "keys w1 = row_key ` set (glucose_readings w1 @ flushed w1)"
          by (simp add: keys_def fl(4))
        with True ex fl(5) have fresh: "(uid, ts) \<notin> keys w"
          by simp
        let ?added = "(uid, ts) # added"
        have "session_keys w' = session_keys w @ ?added" using a(1) s1 by simp
        moreover have "distinct ?added" using a(2,3) k1 by auto
        moreover have "set ?added \<inter> keys w = {}" using a(3) k1 fresh by auto
        moreover have "k' = k + length ?added" using a(4) by simp
        moreover have "fst ` set ?added \<subseteq> {uid}" using a(5) by simp
        ultimately show ?thesis by blast
      next
        case no: False
        from no Some False ts q Cons.prems
        have run: "sync_loop isoparse uid rest w1 k = Inr (w', k')"
          by auto
        from Cons.IH [OF run] sk fl(5) show ?thesis by simp
      qed
    qed
  qed
qed

lemma commit_rows:
  assumes "commit w = Inr w'"
  shows "map row_key (glucose_readings w') = map row_key (glucose_readings w) @ session_keys w"
proof -
  from assms obtain w1 where f: "flush w = Inr w1"
    and w': "w' = w1\<lparr>glucose_readings := glucose_readings w1 @ flushed w1, flushed := []\<rparr>"
    by (auto simp: commit_def split: sum.splits)
  note fl = flush_frame [OF f]
  from flush_session_keys [OF f] fl(4) have "map row_key (flushed w1) = session_keys w"
    by (simp add: session_keys_def)
  then show ?thesis by (simp add: w' fl)
qed

text \<open>
  C2. When a sync has succeeded, a second sync against the same provider answer succeeds
  with readings_added = 0 and changes nothing: every sample is found by its (user,
  timestamp) pair and skipped. The first sync itself added n rows after the rows the
  session already held, with pairwise different keys, none of them present before, all
  for this user: no sample was inserted twice.
\<close>

theorem second_sync_adds_nothing:
  assumes "sync_dexcom_data env http isoparse uid w = (SyncSuccess n, w1)"
  shows "sync_dexcom_data env http isoparse uid w1 = (SyncSuccess 0, w1) \<and>
         (\<exists>added. map row_key (glucose_readings w1) =
                     map row_key (glucose_readings w) @ session_keys w @ added \<and>
                   distinct added \<and> set added \<inter> keys w = {} \<and> length added = n \<and>
                   fst ` set added \<subseteq> {uid})"
proof -
  from assms obtain u egvs wl where u: "get_user w uid = Some u"
    and c: "\<not> unset (dexcom_id u)" "\<not> unset (DEXCOM_ACCESS_TOKEN env)"
    and http: "http = Response 200 (JsonBody egvs)"
    and loop: "sync_loop isoparse uid egvs w 0 = Inr (wl, n)"
    and cm: "commit wl = Inr w1"
    by (auto simp: sync_dexcom_data_def
        split: option.splits if_splits http_outcome.splits http_body.splits sum.splits)
  note cf = commit_Inr [OF cm]
  note lf = sync_loop_frame [OF loop]
  from lf cf(1) have users: "users w1 = users w" by simp
  then have u1: "get_user w1 uid = Some u" using u by (simp add: get_user_def)
  from sync_loop_keys [OF loop] cf(5)
  have present: "\<forall>s \<in> set egvs. \<forall>st. systemTime s = Some st \<and> st \<noteq> [] \<longrightarrow>
           (\<exists>ts. isoparse st = Some ts \<and> (uid, ts) \<in> row_key ` set (glucose_readings w1))"
    by simp
  have l2: "sync_loop isoparse uid egvs w1 0 = Inr (w1, 0)"
    by (rule sync_loop_all_present [OF cf(3) cf(4) present])
  have c2: "commit w1 = Inr w1" by (rule commit_clean [OF cf(3) cf(4)])
  have second: "sync_dexcom_data env http isoparse uid w1 = (SyncSuccess 0, w1)"
    by (simp add: sync_dexcom_data_def u1 c http l2 c2)
  from sync_loop_added [OF loop] obtain added where a:
    "session_keys wl = session_keys w @ added" "distinct added"
    "set added \<inter> keys w = {}" "n = length added" "fst ` set added \<subseteq> {uid}"
    by auto
  from commit_rows [OF cm] a(1) lf
  have "map row_key (glucose_readings w1) =
          map row_key (glucose_readings w) @ session_keys w @ added"
    by simp
  with a(2-5) second show ?thesis by blast
qed

lemma first_sync_run:
  "sync_dexcom_data env_unconfigured (Response 200 (JsonBody demo_egvs)) demo_isoparse 1
     after_manual = (SyncSuccess 2, after_sync)"
  by (simp add: after_sync_eq after_manual_eq sync_dexcom_data_def clinic0_def alice_def
      env_unconfigured_def unset_def demo_egvs_def demo_isoparse_def session_defs Let_def)

theorem second_sync_adds_nothing_witness:
  "sync_dexcom_data env_unconfigured (Response 200 (JsonBody demo_egvs)) demo_isoparse 1
     after_manual = (SyncSuccess 2, after_sync) \<and>
   sync_dexcom_data env_unconfigured (Response 200 (JsonBody demo_egvs)) demo_isoparse 1
     after_sync = (SyncSuccess 0, after_sync)"
  using second_sync_adds_nothing [OF first_sync_run] first_sync_run by simp

lemma connected_alice: "connected env_unconfigured after_manual 1"
  by (simp add: connected_def get_user_def after_manual_eq clinic0_def alice_def unset_def
      env_unconfigured_def)

theorem provider_error_no_writes_witness:
  "(503::int) \<noteq> 200 \<and> connected env_unconfigured after_manual 1 \<and>
   snd (sync_dexcom_data env_unconfigured (Response 503 NotJson) demo_isoparse 1 after_manual)
     = after_manual \<and>
   sync_dexcom env_unconfigured (Response 503 NotJson) demo_isoparse 1 after_manual =
     ((SyncFailure (DexcomApiError 503), 400), after_manual)"
  using provider_error_no_writes [of 503 env_unconfigured NotJson demo_isoparse 1 after_manual]
    connected_alice
  by simp

end
